theory Spec2Isabelle
  imports Main "HOL-Library.Sublist"
begin

section \<open>Placeholder substitution\<close>

text \<open>
  Go strings are byte sequences, and so is \<^typ>\<open>string\<close>. The placeholder of a key
  is \<^verbatim>\<open>fmt.Sprintf("{{%s}}", key)\<close>: the key between two pairs of braces.
\<close>

definition token :: "string \<Rightarrow> string" where
  "token key = ''{{'' @ key @ ''}}''"

text \<open>
  \<^verbatim>\<open>strings.ReplaceAll(s, old, new)\<close> with a non-empty \<open>old\<close>: the text is
  scanned from the left; at the leftmost occurrence of \<open>old\<close> the replacement is written,
  and the scan goes on behind that occurrence (occurrences do not overlap).
\<close>

fun replace_from :: "string \<Rightarrow> string \<Rightarrow> string \<Rightarrow> string" where
  "replace_from old new [] = []"
| "replace_from old new (c # cs) =
     (if prefix old (c # cs) then new @ replace_from old new (drop (length old - 1) cs)
      else c # replace_from old new cs)"

text \<open>
  With an empty \<open>old\<close> the library writes \<open>new\<close> in front of the text and behind each
  UTF-8 sequence; the model does so behind each byte, which is the same on ASCII text.
  The plugin never takes this branch: a token has at least four bytes.
\<close>

definition ReplaceAll :: "string \<Rightarrow> string \<Rightarrow> string \<Rightarrow> string" where
  "ReplaceAll s old new =
     (if old = [] then new @ concat (map (\<lambda>c. c # new) s) else replace_from old new s)"

text \<open>
  The loop of \<^verbatim>\<open>ServeHTTP\<close> over \<^verbatim>\<open>d.replaceableKeys\<close>: the body is the
  loop's variable, the keys are taken in their order, and a key that the fetched data
  does not hold is skipped.
\<close>

fun replace_placeholders :: "(string \<rightharpoonup> string) \<Rightarrow> string list \<Rightarrow> string \<Rightarrow> string" where
  "replace_placeholders fetchedData [] updatedBody = updatedBody"
| "replace_placeholders fetchedData (key # keys) updatedBody =
     replace_placeholders fetchedData keys
       (case fetchedData key of
          Some v \<Rightarrow> ReplaceAll updatedBody (token key) v
        | None \<Rightarrow> updatedBody)"

section \<open>Configuration and construction\<close>

record Config =
  APIURL :: string
  ReplaceableKeys :: "string list"
  DestinationURL :: string

definition CreateConfig :: Config where
  "CreateConfig = \<lparr>APIURL = [], ReplaceableKeys = [], DestinationURL = []\<rparr>"

text \<open>
  The plugin keeps the next handler (of a type \<open>'h\<close> the plugin never looks into: no
  method calls it), its name and the three settings.
\<close>

record 'h DynamicReplacePlugin =
  next_handler :: 'h
  name :: string
  apiURL :: string
  replaceableKeys :: "string list"
  destinationURL :: string

text \<open>Errors are values; each constructor is one error return (or panic) of the source.\<close>

datatype error =
    InvalidConfiguration
  | NilDereference
  | ReadError
  | SyntaxError
  | UnmarshalTypeError
  | TransportError
  | StatusError string
  | RequestError

text \<open>
  \<^verbatim>\<open>New\<close> takes a pointer to the configuration: \<open>None\<close> is the nil pointer, whose
  first field access panics. \<^verbatim>\<open>ctx\<close> is not used.
\<close>

definition New :: "'h \<Rightarrow> Config option \<Rightarrow> string \<Rightarrow> error + 'h DynamicReplacePlugin" where
  "New nxt config nm =
     (case config of
        None \<Rightarrow> Inl NilDereference
      | Some c \<Rightarrow>
          if APIURL c = [] \<or> DestinationURL c = [] \<or> length (ReplaceableKeys c) = 0
          then Inl InvalidConfiguration
          else Inr \<lparr>next_handler = nxt, name = nm, apiURL = APIURL c,
                    replaceableKeys = ReplaceableKeys c,
                    destinationURL = DestinationURL c\<rparr>)"

section \<open>JSON values and the two decodings\<close>

text \<open>
  A JSON document as \<^verbatim>\<open>encoding/json\<close> reads it: the members of an object in the
  order of the text (a key may repeat), a number as its literal.
\<close>

datatype json =
    JNull
  | JBool bool
  | JNumber string
  | JString string
  | JArray "json list"
  | JObject "(string \<times> json) list"

record response =
  StatusCode :: int
  Status :: string
  Body :: string

record request =
  Method :: string
  URL :: string
  Header :: "(string \<times> string) list"
  Payload :: string

text \<open>
  What the plugin takes from its libraries and from the network is a parameter of the
  model, one field per library call:
  \<^item> \<open>json_text\<close>: the JSON grammar on a whole text, as \<^verbatim>\<open>json.Unmarshal\<close> checks
    it (\<open>None\<close>: the text is not one JSON value);
  \<^item> \<open>json_stream\<close>: the first JSON value of a stream, as a \<^verbatim>\<open>json.Decoder\<close>
    reads it (\<open>None\<close>: there is none, or the stream cannot be read that far);
  \<^item> \<open>float64_range\<close>: whether a number literal converts to a 64-bit float
    (\<^verbatim>\<open>strconv.ParseFloat\<close>), which a number stored in an \<^verbatim>\<open>interface{}\<close> must;
  \<^item> \<open>http_Get\<close>: the answer of \<^verbatim>\<open>http.Get\<close> to a URL, an error or a response;
  \<^item> \<open>NewRequest_ok\<close>: whether \<^verbatim>\<open>http.NewRequest\<close> accepts a URL;
  \<^item> \<open>client_Do\<close>: the answer of \<^verbatim>\<open>client.Do\<close> to a request.
\<close>

record world =
  json_text :: "string \<Rightarrow> json option"
  json_stream :: "string \<Rightarrow> json option"
  float64_range :: "string \<Rightarrow> bool"
  http_Get :: "string \<Rightarrow> error + response"
  NewRequest_ok :: "string \<Rightarrow> bool"
  client_Do :: "request \<Rightarrow> error + response"

fun numbers_convert :: "(string \<Rightarrow> bool) \<Rightarrow> json \<Rightarrow> bool" where
  "numbers_convert ok (JNumber n) = ok n"
| "numbers_convert ok (JArray vs) = list_all (numbers_convert ok) vs"
| "numbers_convert ok (JObject kvs) = list_all (\<lambda>kv. numbers_convert ok (snd kv)) kvs"
| "numbers_convert ok _ = True"

text \<open>
  The members of an object are stored into the Go map one after the other, so the last
  of two members with one key stays.
\<close>

fun store_members :: "(string \<times> 'v) list \<Rightarrow> (string \<rightharpoonup> 'v) \<Rightarrow> (string \<rightharpoonup> 'v)" where
  "store_members [] m = m"
| "store_members ((k, v) # kvs) m = store_members kvs (m(k \<mapsto> v))"

text \<open>
  \<^verbatim>\<open>json.Unmarshal(body, &requestData)\<close> with \<^verbatim>\<open>requestData\<close> of type
  \<^verbatim>\<open>map[string]interface{}\<close>: a text that is not JSON is a syntax error; \<^verbatim>\<open>null\<close>
  leaves the map nil (no key is in it); an object fills the map, its values kept as
  they are, and fails only on a number outside the floats; any other JSON value
  cannot be stored in a map.
\<close>

definition Unmarshal_interface_map :: "world \<Rightarrow> string \<Rightarrow> error + (string \<rightharpoonup> json)" where
  "Unmarshal_interface_map w data =
     (case json_text w data of
        None \<Rightarrow> Inl SyntaxError
      | Some JNull \<Rightarrow> Inr Map.empty
      | Some (JObject kvs) \<Rightarrow>
          if numbers_convert (float64_range w) (JObject kvs)
          then Inr (store_members kvs Map.empty)
          else Inl UnmarshalTypeError
      | Some _ \<Rightarrow> Inl UnmarshalTypeError)"

text \<open>
  A member's value stored in a map element of type \<^verbatim>\<open>string\<close>: a JSON string is
  stored; \<^verbatim>\<open>null\<close> leaves the element as it is, which is the empty string of a fresh
  element, and is no error; every other value is a type error (\<open>None\<close>).
\<close>

fun string_element :: "json \<Rightarrow> string option" where
  "string_element (JString s) = Some s"
| "string_element JNull = Some []"
| "string_element _ = None"

fun string_elements :: "(string \<times> json) list \<Rightarrow> (string \<times> string) list option" where
  "string_elements [] = Some []"
| "string_elements ((k, v) # kvs) =
     (case string_element v of
        None \<Rightarrow> None
      | Some s \<Rightarrow> (case string_elements kvs of None \<Rightarrow> None | Some r \<Rightarrow> Some ((k, s) # r)))"

text \<open>
  \<^verbatim>\<open>json.NewDecoder(resp.Body).Decode(&responseData)\<close> with \<^verbatim>\<open>responseData\<close> of
  type \<^verbatim>\<open>map[string]string\<close>.
\<close>

definition Decode_string_map :: "world \<Rightarrow> string \<Rightarrow> error + (string \<rightharpoonup> string)" where
  "Decode_string_map w body =
     (case json_stream w body of
        None \<Rightarrow> Inl SyntaxError
      | Some JNull \<Rightarrow> Inr Map.empty
      | Some (JObject kvs) \<Rightarrow>
          (case string_elements kvs of
             None \<Rightarrow> Inl UnmarshalTypeError
           | Some r \<Rightarrow> Inr (store_members r Map.empty))
      | Some _ \<Rightarrow> Inl UnmarshalTypeError)"

text \<open>
  The type assertion \<^verbatim>\<open>requestData["uid"].(string)\<close> in its two-result form: the
  string and \<open>True\<close> when the key holds a string, the empty string and \<open>False\<close> when it
  holds anything else or is not in the map.
\<close>

fun assert_string :: "json option \<Rightarrow> string \<times> bool" where
  "assert_string (Some (JString s)) = (s, True)"
| "assert_string _ = ([], False)"

section \<open>The request pipeline\<close>

definition StatusOK :: int where
  "StatusOK = 200"

definition StatusBadRequest :: int where
  "StatusBadRequest = 400"

definition StatusInternalServerError :: int where
  "StatusInternalServerError = 500"

text \<open>
  A response as the caller gets it: the status code and the body.
\<close>

record reply =
  status_code :: int
  message :: string

text \<open>
  The handler answers through its \<^verbatim>\<open>http.ResponseWriter\<close>, which is the one of the
  \<^verbatim>\<open>net/http\<close> server (for a request whose method is not \<^verbatim>\<open>HEAD\<close>, to which
  the server sends no body at all). What comes of the handler's calls is
  \<^item> \<open>Response\<close>: the response sent;
  \<^item> \<open>Informed\<close>: an informational response with the given code, and then the
    response sent;
  \<^item> \<open>Panicked\<close>: a panic of \<^verbatim>\<open>WriteHeader\<close> on the given code, with nothing sent.
\<close>

datatype received =
    Response reply
  | Informed int reply
  | Panicked int

text \<open>
  The server's \<^verbatim>\<open>bodyAllowedForStatus\<close>: the codes 1xx, 204 and 304 have no body.
\<close>

definition bodyAllowedForStatus :: "int \<Rightarrow> bool" where
  "bodyAllowedForStatus status \<longleftrightarrow>
     \<not> (100 \<le> status \<and> status \<le> 199) \<and> status \<noteq> 204 \<and> status \<noteq> 304"

text \<open>
  \<^verbatim>\<open>rw.WriteHeader(c)\<close> and then \<^verbatim>\<open>rw.Write(body)\<close> on a writer not yet written
  to, the result of \<^verbatim>\<open>Write\<close> being ignored as the handler ignores it:
  \<^item> \<^verbatim>\<open>WriteHeader\<close> panics on a code below 100 or above 999, and \<^verbatim>\<open>Write\<close> is
    not reached;
  \<^item> a code 1xx other than 101 is sent as an informational response, the header counts
    as not yet written, and \<^verbatim>\<open>Write\<close> then sends the status 200 with the body;
  \<^item> on any other code the header is sent with that code, and \<^verbatim>\<open>Write\<close> sends the
    body when the code allows one and sends nothing (its error is
    \<^verbatim>\<open>ErrBodyNotAllowed\<close>) when it does not.
\<close>

definition write_response :: "int \<Rightarrow> string \<Rightarrow> received" where
  "write_response c body =
     (if c < 100 \<or> 999 < c then Panicked c
      else if 100 \<le> c \<and> c \<le> 199 \<and> c \<noteq> 101
      then Informed c \<lparr>status_code = StatusOK, message = body\<rparr>
      else if bodyAllowedForStatus c then Response \<lparr>status_code = c, message = body\<rparr>
      else Response \<lparr>status_code = c, message = []\<rparr>)"

text \<open>
  \<^verbatim>\<open>http.Error(rw, msg, c)\<close> is \<^verbatim>\<open>WriteHeader(c)\<close> and the message with a newline
  written behind it.
\<close>

definition http_Error :: "string \<Rightarrow> int \<Rightarrow> received" where
  "http_Error msg c = write_response c (msg @ [CHR 0x0A])"

text \<open>The calls a request makes to the outside, in their order.\<close>

datatype call = Get string | Do request

text \<open>The lookup: one \<^verbatim>\<open>GET\<close>, whatever comes of it.\<close>

definition fetchDataFromAPI ::
  "world \<Rightarrow> 'h DynamicReplacePlugin \<Rightarrow> string \<Rightarrow> call list \<times> (error + (string \<rightharpoonup> string))" where
  "fetchDataFromAPI w d uid =
     (let url = apiURL d @ ''?uid='' @ uid in
      ([Get url],
       case http_Get w url of
         Inl err \<Rightarrow> Inl err
       | Inr resp \<Rightarrow>
           if StatusCode resp \<noteq> StatusOK
           then Inl (StatusError (''API request failed with status: '' @ Status resp))
           else (case Decode_string_map w (Body resp) of
                   Inl err \<Rightarrow> Inl err
                 | Inr responseData \<Rightarrow> Inr responseData)))"

definition sendToDestination ::
  "world \<Rightarrow> 'h DynamicReplacePlugin \<Rightarrow> string \<Rightarrow> received \<times> call list" where
  "sendToDestination w d updatedBody =
     (if \<not> NewRequest_ok w (destinationURL d)
      then (http_Error ''could not create request to destination'' StatusInternalServerError, [])
      else
        let req = \<lparr>Method = ''POST'', URL = destinationURL d,
                   Header = [(''Content-Type'', ''application/json'')],
                   Payload = updatedBody\<rparr>
        in case client_Do w req of
             Inl err \<Rightarrow>
               (http_Error ''could not send request to destination'' StatusInternalServerError,
                [Do req])
           | Inr resp \<Rightarrow>
               (write_response (StatusCode resp)
                  (''Request sent to destination with status: '' @ Status resp),
                [Do req]))"

text \<open>
  \<^verbatim>\<open>ServeHTTP\<close>. Its input is what \<^verbatim>\<open>ioutil.ReadAll(req.Body)\<close> gives: an error or
  the bytes of the body. Its result is what comes of its answer to the caller and the calls
  made on the way.
\<close>

definition ServeHTTP ::
  "world \<Rightarrow> 'h DynamicReplacePlugin \<Rightarrow> error + string \<Rightarrow> received \<times> call list" where
  "ServeHTTP w d read =
     (case read of
        Inl err \<Rightarrow> (http_Error ''could not read request body'' StatusInternalServerError, [])
      | Inr body \<Rightarrow>
          (case Unmarshal_interface_map w body of
             Inl err \<Rightarrow> (http_Error ''invalid JSON'' StatusBadRequest, [])
           | Inr requestData \<Rightarrow>
               (case assert_string (requestData ''uid'') of (uid, ok) \<Rightarrow>
                  if \<not> ok \<or> uid = []
                  then (http_Error ''uid not found in request'' StatusBadRequest, [])
                  else
                    (case fetchDataFromAPI w d uid of (calls, fetched) \<Rightarrow>
                       (case fetched of
                          Inl err \<Rightarrow>
                            (http_Error ''could not fetch data from API''
                               StatusInternalServerError, calls)
                        | Inr fetchedData \<Rightarrow>
                            (case sendToDestination w d
                                    (replace_placeholders fetchedData (replaceableKeys d) body)
                             of (r, calls') \<Rightarrow> (r, calls @ calls')))))))"

section \<open>Shapes of JSON values\<close>

text \<open>
  The member of a JSON value at a key: in an object the value of the key (of its last
  member with that key), and nothing in a value that is no object.
\<close>

fun member_at :: "json \<Rightarrow> string \<Rightarrow> json option" where
  "member_at (JObject kvs) k = store_members kvs Map.empty k"
| "member_at v k = None"

text \<open>
  The JSON values that \<^verbatim>\<open>json.Unmarshal\<close> stores in the request's map: \<^verbatim>\<open>null\<close>,
  and an object all of whose numbers convert.
\<close>

definition fills_map :: "world \<Rightarrow> json \<Rightarrow> bool" where
  "fills_map w v =
     (case v of JNull \<Rightarrow> True | JObject kvs \<Rightarrow> numbers_convert (float64_range w) v | _ \<Rightarrow> False)"

text \<open>
  The JSON values that the lookup's decoder stores in a \<^verbatim>\<open>map[string]string\<close>:
  \<^verbatim>\<open>null\<close>, and an object whose values are strings or \<^verbatim>\<open>null\<close>.
\<close>

fun string_or_null :: "json \<Rightarrow> bool" where
  "string_or_null (JString s) = True"
| "string_or_null JNull = True"
| "string_or_null v = False"

definition decodable :: "json \<Rightarrow> bool" where
  "decodable v =
     (case v of
        JNull \<Rightarrow> True
      | JObject kvs \<Rightarrow> list_all (\<lambda>kv. string_or_null (snd kv)) kvs
      | _ \<Rightarrow> False)"

section \<open>The specification's wording\<close>

text \<open>
  Three predicates follow the words of the specification, to be compared with what the
  code does: a body in which \<open>uid\<close> is absent, is not a string, or is the empty string;
  a JSON object whose values are all strings; and a configuration in which a URL is
  empty, or the key list is empty or holds an empty string.
\<close>

definition spec_uid_missing :: "json \<Rightarrow> bool" where
  "spec_uid_missing v = (case member_at v ''uid'' of Some (JString s) \<Rightarrow> s = [] | _ \<Rightarrow> True)"

fun is_string :: "json \<Rightarrow> bool" where
  "is_string (JString s) = True"
| "is_string v = False"

definition spec_flat_string_object :: "json \<Rightarrow> bool" where
  "spec_flat_string_object v =
     (case v of JObject kvs \<Rightarrow> list_all (\<lambda>kv. is_string (snd kv)) kvs | _ \<Rightarrow> False)"

definition spec_invalid :: "Config \<Rightarrow> bool" where
  "spec_invalid c \<longleftrightarrow>
     APIURL c = [] \<or> DestinationURL c = [] \<or> ReplaceableKeys c = [] \<or> [] \<in> set (ReplaceableKeys c)"

section \<open>A plugin and worlds to run it in\<close>

text \<open>
  A world given by tables: the JSON texts it reads, the lookup's answer to each URL and
  the destination's answer to each request. What a table does not hold is no JSON, or
  a call that fails; every number converts and every URL is accepted.
\<close>

definition table_world ::
  "(string \<rightharpoonup> json) \<Rightarrow> (string \<rightharpoonup> json) \<Rightarrow> (string \<rightharpoonup> response) \<Rightarrow> (request \<rightharpoonup> response) \<Rightarrow> world" where
  "table_world texts streams gets posts =
     \<lparr>json_text = texts, json_stream = streams, float64_range = (\<lambda>n. True),
      http_Get = (\<lambda>u. case gets u of None \<Rightarrow> Inl TransportError | Some r \<Rightarrow> Inr r),
      NewRequest_ok = (\<lambda>u. True),
      client_Do = (\<lambda>r. case posts r of None \<Rightarrow> Inl TransportError | Some a \<Rightarrow> Inr a)\<rparr>"

definition greeter :: "unit DynamicReplacePlugin" where
  "greeter = \<lparr>next_handler = (), name = ''greeter'', apiURL = ''http://lookup.test/fields'',
     replaceableKeys = [''name''], destinationURL = ''http://destination.test/in''\<rparr>"

text \<open>The JSON texts of the examples, each with the value it denotes.\<close>

definition json_table :: "string \<rightharpoonup> json" where
  "json_table =
     [''{\"uid\":\"abc123\",\"greeting\":\"Hello {{name}}\"}'' \<mapsto>
        JObject [(''uid'', JString ''abc123''), (''greeting'', JString ''Hello {{name}}'')],
      ''{\"uid\":\"a&b #c\"}'' \<mapsto> JObject [(''uid'', JString ''a&b #c'')],
      ''{\"uid\":\"\"}'' \<mapsto> JObject [(''uid'', JString [])],
      ''{\"uid\":7}'' \<mapsto> JObject [(''uid'', JNumber ''7'')],
      ''{\"name\":\"Ada\"}'' \<mapsto> JObject [(''name'', JString ''Ada'')],
      ''{\"name\":null}'' \<mapsto> JObject [(''name'', JNull)],
      ''{\"name\":7}'' \<mapsto> JObject [(''name'', JNumber ''7'')],
      ''[]'' \<mapsto> JArray []]"

definition test_world :: "(string \<rightharpoonup> response) \<Rightarrow> world" where
  "test_world lookup =
     table_world json_table json_table lookup
       (\<lambda>r. Some \<lparr>StatusCode = 202, Status = ''202 Accepted'', Body = []\<rparr>)"

text \<open>
  The scenario of the specification: the lookup answers \<^verbatim>\<open>{"name":"Ada"}\<close> for
  \<^verbatim>\<open>abc123\<close>, and the destination accepts what it is sent.
\<close>

definition scenario_world :: world where
  "scenario_world =
     test_world [''http://lookup.test/fields?uid=abc123'' \<mapsto>
       \<lparr>StatusCode = 200, Status = ''200 OK'', Body = ''{\"name\":\"Ada\"}''\<rparr>]"

text \<open>The same scenario with a destination that answers as given.\<close>

definition destination_world :: "response \<Rightarrow> world" where
  "destination_world answer =
     table_world json_table json_table
       [''http://lookup.test/fields?uid=abc123'' \<mapsto>
          \<lparr>StatusCode = 200, Status = ''200 OK'', Body = ''{\"name\":\"Ada\"}''\<rparr>]
       (\<lambda>r. Some answer)"

section \<open>Properties of the substitution\<close>

lemma token_not_Nil: "token key \<noteq> []"
  by (simp add: token_def)

lemma replace_from_absent:
  "old \<noteq> [] \<Longrightarrow> \<not> sublist old s \<Longrightarrow> replace_from old new s = s"
proof (induction s)
  case Nil
  show ?case by simp
next
  case (Cons c cs)
  from Cons.prems have "\<not> prefix old (c # cs)" and "\<not> sublist old cs"
    by (auto simp: sublist_Cons_right)
  with Cons.IH Cons.prems(1) show ?case by simp
qed

lemma replace_from_at_occurrence:
  assumes "old \<noteq> []"
  shows "replace_from old new (old @ ys) = new @ replace_from old new ys"
proof -
  from assms obtain c cs where old: "old = c # cs" by (cases old) auto
  have "replace_from old new (c # (cs @ ys)) =
          new @ replace_from old new (drop (length old - 1) (cs @ ys))"
    by (simp add: old)
  then show ?thesis by (simp add: old)
qed

lemma replace_from_leftmost:
  "old \<noteq> [] \<Longrightarrow> \<not> sublist old (xs @ butlast old) \<Longrightarrow>
     replace_from old new (xs @ old @ ys) = xs @ new @ replace_from old new ys"
proof (induction xs)
  case Nil
  then show ?case by (simp add: replace_from_at_occurrence)
next
  case (Cons x xs)
  have len: "length old \<le> length ((x # xs) @ butlast old)"
    using Cons.prems(1) by (cases old) auto
  have "\<not> prefix old ((x # xs) @ old @ ys)"
  proof
    assume p: "prefix old ((x # xs) @ old @ ys)"
    have "(x # xs) @ old @ ys = ((x # xs) @ butlast old) @ (last old # ys)"
      using Cons.prems(1) by simp
    then have q: "prefix ((x # xs) @ butlast old) ((x # xs) @ old @ ys)"
      by (metis prefixI)
    from p q len have "prefix old ((x # xs) @ butlast old)"
      by (rule prefix_length_prefix)
    with Cons.prems(2) show False by auto
  qed
  moreover from Cons.prems(2) have "\<not> sublist old (xs @ butlast old)"
    by (auto simp: sublist_Cons_right)
  ultimately show ?case using Cons.IH Cons.prems(1) by simp
qed

lemma replace_placeholders_append:
  "replace_placeholders f (ks @ ks') b = replace_placeholders f ks' (replace_placeholders f ks b)"
  by (induction ks arbitrary: b) auto

lemma replace_placeholders_filter:
  "replace_placeholders f (filter (\<lambda>k. f k \<noteq> None) ks) b = replace_placeholders f ks b"
  by (induction ks arbitrary: b) auto

lemma replace_placeholders_no_token:
  "(\<forall>k \<in> set ks. f k \<noteq> None \<longrightarrow> \<not> sublist (token k) b) \<Longrightarrow> replace_placeholders f ks b = b"
proof (induction ks)
  case Nil
  show ?case by simp
next
  case (Cons k ks)
  have "(case f k of Some v \<Rightarrow> ReplaceAll b (token k) v | None \<Rightarrow> b) = b"
  proof (cases "f k")
    case None
    then show ?thesis by simp
  next
    case (Some v)
    with Cons.prems have "\<not> sublist (token k) b" by simp
    then show ?thesis
      by (simp add: Some ReplaceAll_def token_not_Nil replace_from_absent)
  qed
  with Cons show ?case by simp
qed

section \<open>Properties of the decodings and of the lookup\<close>

lemma Unmarshal_interface_map_cases:
  assumes "json_text w body = Some v"
  shows "Unmarshal_interface_map w body =
           (if fills_map w v then Inr (member_at v) else Inl UnmarshalTypeError)"
  using assms
  by (cases v) (auto simp: Unmarshal_interface_map_def fills_map_def fun_eq_iff)

lemma string_elements_Some:
  "(\<exists>r. string_elements kvs = Some r) \<longleftrightarrow> list_all (\<lambda>kv. string_or_null (snd kv)) kvs"
proof (induction kvs)
  case Nil
  show ?case by simp
next
  case (Cons kv kvs)
  obtain k v where kv: "kv = (k, v)" by (cases kv)
  show ?case
    using Cons.IH by (cases v) (auto simp: kv split: option.splits)
qed

lemma string_elements_values:
  "list_all (\<lambda>kv. string_or_null (snd kv)) kvs \<Longrightarrow>
     string_elements kvs =
       Some (map (\<lambda>kv. (fst kv, case snd kv of JString s \<Rightarrow> s | _ \<Rightarrow> [])) kvs)"
proof (induction kvs)
  case Nil
  show ?case by simp
next
  case (Cons kv kvs)
  obtain k v where kv: "kv = (k, v)" by (cases kv)
  from Cons show ?case
    by (cases v) (auto simp: kv)
qed

lemma Decode_string_map_Inr:
  "(\<exists>m. Decode_string_map w body = Inr m) \<longleftrightarrow> (\<exists>v. json_stream w body = Some v \<and> decodable v)"
proof (cases "json_stream w body")
  case None
  then show ?thesis by (simp add: Decode_string_map_def)
next
  case (Some v)
  show ?thesis
  proof (cases v)
    case (JObject kvs)
    show ?thesis
      using string_elements_Some [of kvs]
      by (auto simp: Decode_string_map_def Some JObject decodable_def split: option.splits)
  qed (simp_all add: Decode_string_map_def Some decodable_def)
qed

lemma fetchDataFromAPI_fst:
  "fst (fetchDataFromAPI w d uid) = [Get (apiURL d @ ''?uid='' @ uid)]"
  by (simp add: fetchDataFromAPI_def Let_def)

lemma fetchDataFromAPI_snd:
  "snd (fetchDataFromAPI w d uid) =
     (case http_Get w (apiURL d @ ''?uid='' @ uid) of
        Inl err \<Rightarrow> Inl err
      | Inr resp \<Rightarrow>
          if StatusCode resp = 200 then Decode_string_map w (Body resp)
          else Inl (StatusError (''API request failed with status: '' @ Status resp)))"
  by (simp add: fetchDataFromAPI_def Let_def StatusOK_def split: sum.splits)

lemma ServeHTTP_forwards:
  assumes "Unmarshal_interface_map w body = Inr requestData"
    and "requestData ''uid'' = Some (JString uid)" and "uid \<noteq> []"
    and "snd (fetchDataFromAPI w d uid) = Inr fetchedData"
  shows "ServeHTTP w d (Inr body) =
           (fst (sendToDestination w d (replace_placeholders fetchedData (replaceableKeys d) body)),
            Get (apiURL d @ ''?uid='' @ uid) #
            snd (sendToDestination w d (replace_placeholders fetchedData (replaceableKeys d) body)))"
  using assms
  by (simp add: ServeHTTP_def fetchDataFromAPI_def Let_def split: prod.splits)

section \<open>The claims\<close>

text \<open>
  Claim C1. The substitution takes the configured keys in their order: the empty key
  list leaves the body as it is, and the last key of a list works on what the keys
  before it have made of the body. A key with a resolved value has every occurrence of
  its token replaced: the leftmost occurrence is replaced by the value and the
  replacement goes on in the text behind it, and a text without the token stays as it
  is. A key without a resolved value changes nothing, so the result is the one of the
  resolved keys alone, and the body itself when no key is resolved. The substitution
  is a total function into the strings, it has no error result: once the lookup has
  succeeded, the reply and the calls are those of forwarding the substituted body.
\<close>

theorem substitution_in_key_order:
  "replace_placeholders fetchedData [] body = body
   \<and> replace_placeholders fetchedData (keys @ [key]) body =
       (case fetchedData key of
          Some v \<Rightarrow> ReplaceAll (replace_placeholders fetchedData keys body) (token key) v
        | None \<Rightarrow> replace_placeholders fetchedData keys body)
   \<and> (\<not> sublist (token key) (xs @ butlast (token key)) \<longrightarrow>
        ReplaceAll (xs @ token key @ ys) (token key) v = xs @ v @ ReplaceAll ys (token key) v)
   \<and> (\<not> sublist (token key) s \<longrightarrow> ReplaceAll s (token key) v = s)
   \<and> replace_placeholders fetchedData (filter (\<lambda>k. fetchedData k \<noteq> None) keys) body =
       replace_placeholders fetchedData keys body
   \<and> ((\<forall>k \<in> set keys. fetchedData k = None) \<longrightarrow>
        replace_placeholders fetchedData keys body = body)
   \<and> (Unmarshal_interface_map w body = Inr requestData \<and>
       requestData ''uid'' = Some (JString uid) \<and> uid \<noteq> [] \<and>
       snd (fetchDataFromAPI w d uid) = Inr fetchedData \<longrightarrow>
       ServeHTTP w d (Inr body) =
         (fst (sendToDestination w d (replace_placeholders fetchedData (replaceableKeys d) body)),
          Get (apiURL d @ ''?uid='' @ uid) #
          snd (sendToDestination w d (replace_placeholders fetchedData (replaceableKeys d) body))))"
proof -
  have z: "replace_placeholders fetchedData [] body = body"
    by simp
  have a: "replace_placeholders fetchedData (keys @ [key]) body =
       (case fetchedData key of
          Some v \<Rightarrow> ReplaceAll (replace_placeholders fetchedData keys body) (token key) v
        | None \<Rightarrow> replace_placeholders fetchedData keys body)"
    by (simp add: replace_placeholders_append)
  have b: "\<not> sublist (token key) (xs @ butlast (token key)) \<longrightarrow>
        ReplaceAll (xs @ token key @ ys) (token key) v = xs @ v @ ReplaceAll ys (token key) v"
    by (simp add: ReplaceAll_def token_not_Nil replace_from_leftmost)
  have c: "\<not> sublist (token key) s \<longrightarrow> ReplaceAll s (token key) v = s"
    by (simp add: ReplaceAll_def token_not_Nil replace_from_absent)
  have e: "replace_placeholders fetchedData (filter (\<lambda>k. fetchedData k \<noteq> None) keys) body =
       replace_placeholders fetchedData keys body"
    by (rule replace_placeholders_filter)
  have f: "(\<forall>k \<in> set keys. fetchedData k = None) \<longrightarrow>
        replace_placeholders fetchedData keys body = body"
    by (simp add: replace_placeholders_no_token)
  have g: "Unmarshal_interface_map w body = Inr requestData \<and>
       requestData ''uid'' = Some (JString uid) \<and> uid \<noteq> [] \<and>
       snd (fetchDataFromAPI w d uid) = Inr fetchedData \<longrightarrow>
       ServeHTTP w d (Inr body) =
         (fst (sendToDestination w d (replace_placeholders fetchedData (replaceableKeys d) body)),
          Get (apiURL d @ ''?uid='' @ uid) #
          snd (sendToDestination w d (replace_placeholders fetchedData (replaceableKeys d) body)))"
    using ServeHTTP_forwards [of w body requestData uid d fetchedData] by blast
  show ?thesis
    by (intro conjI) (fact z, fact a, fact b, fact c, fact e, fact f, fact g)
qed

theorem substitution_in_key_order_witness:
  "replace_placeholders [''name'' \<mapsto> ''Ada''] ([''title''] @ [''name''])
     ''{{title}} {{name}}, {{name}}!'' = ''{{title}} Ada, Ada!''
   \<and> ReplaceAll (''{{title}} '' @ token ''name'' @ '', {{name}}!'') (token ''name'') ''Ada'' =
     ''{{title}} '' @ ''Ada'' @ ReplaceAll '', {{name}}!'' (token ''name'') ''Ada''
   \<and> ReplaceAll ''{{title}} {{name}}'' (token ''city'') ''Ely'' = ''{{title}} {{name}}''
   \<and> replace_placeholders Map.empty [''title'', ''name''] ''{{title}} {{name}}'' =
     ''{{title}} {{name}}''
   \<and> ServeHTTP scenario_world greeter
       (Inr ''{\"uid\":\"abc123\",\"greeting\":\"Hello {{name}}\"}'') =
     (fst (sendToDestination scenario_world greeter
             ''{\"uid\":\"abc123\",\"greeting\":\"Hello Ada\"}''),
      Get ''http://lookup.test/fields?uid=abc123'' #
      snd (sendToDestination scenario_world greeter
             ''{\"uid\":\"abc123\",\"greeting\":\"Hello Ada\"}''))"
proof -
  let ?body = "''{\"uid\":\"abc123\",\"greeting\":\"Hello {{name}}\"}''"
  let ?m = "[''uid'' \<mapsto> JString ''abc123'', ''greeting'' \<mapsto> JString ''Hello {{name}}'']"
  have h1: "\<not> sublist (token ''name'') (''{{title}} '' @ butlast (token ''name''))"
    by (simp add: token_def sublist_code)
  have h2: "\<not> sublist (token ''city'') ''{{title}} {{name}}''"
    by (simp add: token_def sublist_code)
  have h3: "\<forall>k \<in> set [''title'', ''name'']. (Map.empty :: string \<rightharpoonup> string) k = None"
    by simp
  have e: "replace_placeholders [''name'' \<mapsto> ''Ada''] [''title''] ''{{title}} {{name}}, {{name}}!'' =
             ''{{title}} {{name}}, {{name}}!''"
    by simp
  have r: "ReplaceAll ''{{title}} {{name}}, {{name}}!'' (token ''name'') ''Ada'' = ''{{title}} Ada, Ada!''"
    by (simp add: ReplaceAll_def token_def)
  have u: "Unmarshal_interface_map scenario_world ?body = Inr ?m"
    by (simp add: Unmarshal_interface_map_def scenario_world_def test_world_def json_table_def
        table_world_def)
  have i: "?m ''uid'' = Some (JString ''abc123'')" and n: "''abc123'' \<noteq> []"
    by simp_all
  have l: "snd (fetchDataFromAPI scenario_world greeter ''abc123'') = Inr [''name'' \<mapsto> ''Ada'']"
    by (simp add: fetchDataFromAPI_snd Decode_string_map_def scenario_world_def test_world_def
        json_table_def table_world_def greeter_def)
  have s: "replace_placeholders [''name'' \<mapsto> ''Ada''] (replaceableKeys greeter) ?body =
             ''{\"uid\":\"abc123\",\"greeting\":\"Hello Ada\"}''"
    by (simp add: greeter_def ReplaceAll_def token_def)
  have g: "apiURL greeter @ ''?uid='' @ ''abc123'' = ''http://lookup.test/fields?uid=abc123''"
    by (simp add: greeter_def)
  note t1 = substitution_in_key_order [of "[''name'' \<mapsto> ''Ada'']" "''{{title}} {{name}}, {{name}}!''"
      "[''title'']" "''name''" "''{{title}} ''" "'', {{name}}!''" "''Ada''"]
  note t2 = substitution_in_key_order [of Map.empty "''{{title}} {{name}}''" "[''title'', ''name'']"
      "''city''" "[]" "[]" "''Ely''" "''{{title}} {{name}}''"]
  note t3 = substitution_in_key_order [of "[''name'' \<mapsto> ''Ada'']" ?body "[]" "[]" "[]" "[]" "[]" "[]"
      scenario_world ?m "''abc123''" greeter]
  have c1: "replace_placeholders [''name'' \<mapsto> ''Ada''] ([''title''] @ [''name''])
     ''{{title}} {{name}}, {{name}}!'' = ''{{title}} Ada, Ada!''"
  proof -
    from t1 have "replace_placeholders [''name'' \<mapsto> ''Ada''] ([''title''] @ [''name''])
        ''{{title}} {{name}}, {{name}}!'' =
      (case [''name'' \<mapsto> ''Ada''] ''name'' of
         Some v \<Rightarrow>
           ReplaceAll
             (replace_placeholders [''name'' \<mapsto> ''Ada''] [''title'']
                ''{{title}} {{name}}, {{name}}!'')
             (token ''name'') v
       | None \<Rightarrow>
           replace_placeholders [''name'' \<mapsto> ''Ada''] [''title'']
             ''{{title}} {{name}}, {{name}}!'')"
      by blast
    also have "\<dots> = ''{{title}} Ada, Ada!''"
      by (simp add: e r)
    finally show ?thesis .
  qed
  have c2: "ReplaceAll (''{{title}} '' @ token ''name'' @ '', {{name}}!'') (token ''name'') ''Ada'' =
     ''{{title}} '' @ ''Ada'' @ ReplaceAll '', {{name}}!'' (token ''name'') ''Ada''"
    using t1 h1 by blast
  have c3: "ReplaceAll ''{{title}} {{name}}'' (token ''city'') ''Ely'' = ''{{title}} {{name}}''"
    using t2 h2 by blast
  have c4: "replace_placeholders Map.empty [''title'', ''name''] ''{{title}} {{name}}'' =
     ''{{title}} {{name}}''"
    using t2 h3 by blast
  have "ServeHTTP scenario_world greeter (Inr ?body) =
         (fst (sendToDestination scenario_world greeter
            (replace_placeholders [''name'' \<mapsto> ''Ada''] (replaceableKeys greeter) ?body)),
          Get (apiURL greeter @ ''?uid='' @ ''abc123'') #
          snd (sendToDestination scenario_world greeter
            (replace_placeholders [''name'' \<mapsto> ''Ada''] (replaceableKeys greeter) ?body)))"
    using t3 u i n l by blast
  then have c5: "ServeHTTP scenario_world greeter (Inr ?body) =
     (fst (sendToDestination scenario_world greeter
             ''{\"uid\":\"abc123\",\"greeting\":\"Hello Ada\"}''),
      Get ''http://lookup.test/fields?uid=abc123'' #
      snd (sendToDestination scenario_world greeter
             ''{\"uid\":\"abc123\",\"greeting\":\"Hello Ada\"}''))"
    by (simp only: s g)
  show ?thesis
    by (intro conjI) (fact c1, fact c2, fact c3, fact c4, fact c5)
qed

text \<open>
  Claim C2, as it is stated, fails: in the scenario of the specification, with a
  destination that answers \<open>204 No Content\<close>, the body sent is the one expected, and the
  caller gets the status 204 without any message, since that status allows no body.
\<close>

theorem scenario_forward_counterexample:
  "ServeHTTP
     (destination_world \<lparr>StatusCode = 204, Status = ''204 No Content'', Body = []\<rparr>)
     greeter (Inr ''{\"uid\":\"abc123\",\"greeting\":\"Hello {{name}}\"}'') =
     (Response \<lparr>status_code = 204, message = []\<rparr>,
      [Get ''http://lookup.test/fields?uid=abc123'',
       Do \<lparr>Method = ''POST'', URL = ''http://destination.test/in'',
          Header = [(''Content-Type'', ''application/json'')],
          Payload = ''{\"uid\":\"abc123\",\"greeting\":\"Hello Ada\"}''\<rparr>])"
  by (simp add: ServeHTTP_def Unmarshal_interface_map_def fetchDataFromAPI_def
      Decode_string_map_def sendToDestination_def write_response_def bodyAllowedForStatus_def
      StatusOK_def ReplaceAll_def token_def destination_world_def table_world_def
      json_table_def greeter_def)

text \<open>
  Claim C2, amended. In the scenario of the specification (the body with \<open>uid\<close>
  \<open>abc123\<close> and the greeting \<open>Hello {{name}}\<close>, the one key \<open>name\<close>, a lookup that
  answers 200 with \<open>name\<close> resolved to \<open>Ada\<close>, a destination that answers) the plugin
  makes the lookup and then one POST to the destination URL with the content type
  \<open>application/json\<close> and the body in which \<open>{{name}}\<close> has become \<open>Ada\<close>. What the
  caller gets is what the response writer makes of the destination's status code and
  of the message that ends in the destination's status text: for a code from 200 to
  999 other than 204 and 304 that code and the message, and for 204 and 304 the code
  without a message.
\<close>

theorem scenario_forward:
  assumes "replaceableKeys d = [''name'']"
    and "json_text w ''{\"uid\":\"abc123\",\"greeting\":\"Hello {{name}}\"}'' =
           Some (JObject [(''uid'', JString ''abc123''), (''greeting'', JString ''Hello {{name}}'')])"
    and "http_Get w (apiURL d @ ''?uid=abc123'') = Inr resp"
    and "StatusCode resp = 200"
    and "json_stream w (Body resp) = Some (JObject [(''name'', JString ''Ada'')])"
    and "NewRequest_ok w (destinationURL d)"
    and "client_Do w \<lparr>Method = ''POST'', URL = destinationURL d,
            Header = [(''Content-Type'', ''application/json'')],
            Payload = ''{\"uid\":\"abc123\",\"greeting\":\"Hello Ada\"}''\<rparr> = Inr dest"
  shows "snd (ServeHTTP w d (Inr ''{\"uid\":\"abc123\",\"greeting\":\"Hello {{name}}\"}'')) =
           [Get (apiURL d @ ''?uid=abc123''),
            Do \<lparr>Method = ''POST'', URL = destinationURL d,
               Header = [(''Content-Type'', ''application/json'')],
               Payload = ''{\"uid\":\"abc123\",\"greeting\":\"Hello Ada\"}''\<rparr>]
         \<and> fst (ServeHTTP w d (Inr ''{\"uid\":\"abc123\",\"greeting\":\"Hello {{name}}\"}'')) =
           write_response (StatusCode dest)
             (''Request sent to destination with status: '' @ Status dest)
         \<and> (200 \<le> StatusCode dest \<and> StatusCode dest \<le> 999 \<and>
            StatusCode dest \<noteq> 204 \<and> StatusCode dest \<noteq> 304 \<longrightarrow>
            fst (ServeHTTP w d (Inr ''{\"uid\":\"abc123\",\"greeting\":\"Hello {{name}}\"}'')) =
              Response \<lparr>status_code = StatusCode dest,
                message = ''Request sent to destination with status: '' @ Status dest\<rparr>)
         \<and> (StatusCode dest = 204 \<or> StatusCode dest = 304 \<longrightarrow>
            fst (ServeHTTP w d (Inr ''{\"uid\":\"abc123\",\"greeting\":\"Hello {{name}}\"}'')) =
              Response \<lparr>status_code = StatusCode dest, message = []\<rparr>)"
proof -
  let ?body = "''{\"uid\":\"abc123\",\"greeting\":\"Hello {{name}}\"}''"
  let ?sent = "''{\"uid\":\"abc123\",\"greeting\":\"Hello Ada\"}''"
  let ?msg = "''Request sent to destination with status: '' @ Status dest"
  have u: "Unmarshal_interface_map w ?body =
             Inr [''uid'' \<mapsto> JString ''abc123'', ''greeting'' \<mapsto> JString ''Hello {{name}}'']"
    using assms(2) by (simp add: Unmarshal_interface_map_def)
  have f: "snd (fetchDataFromAPI w d ''abc123'') = Inr [''name'' \<mapsto> ''Ada'']"
    using assms(3,4,5) by (simp add: fetchDataFromAPI_def Decode_string_map_def StatusOK_def)
  have r: "replace_placeholders [''name'' \<mapsto> ''Ada''] (replaceableKeys d) ?body = ?sent"
    by (simp add: assms(1) ReplaceAll_def token_def)
  have "ServeHTTP w d (Inr ?body) =
          (fst (sendToDestination w d ?sent),
           Get (apiURL d @ ''?uid='' @ ''abc123'') # snd (sendToDestination w d ?sent))"
    using ServeHTTP_forwards [OF u _ _ f] by (simp add: r)
  then have s: "ServeHTTP w d (Inr ?body) =
          (write_response (StatusCode dest) ?msg,
           [Get (apiURL d @ ''?uid=abc123''),
            Do \<lparr>Method = ''POST'', URL = destinationURL d,
               Header = [(''Content-Type'', ''application/json'')], Payload = ?sent\<rparr>])"
    using assms(6,7) by (simp add: sendToDestination_def)
  have a: "200 \<le> StatusCode dest \<and> StatusCode dest \<le> 999 \<and>
            StatusCode dest \<noteq> 204 \<and> StatusCode dest \<noteq> 304 \<longrightarrow>
            write_response (StatusCode dest) ?msg =
              Response \<lparr>status_code = StatusCode dest, message = ?msg\<rparr>"
    by (simp add: write_response_def bodyAllowedForStatus_def)
  have b: "StatusCode dest = 204 \<or> StatusCode dest = 304 \<longrightarrow>
            write_response (StatusCode dest) ?msg =
              Response \<lparr>status_code = StatusCode dest, message = []\<rparr>"
    by (auto simp: write_response_def bodyAllowedForStatus_def)
  show ?thesis
    unfolding s fst_conv snd_conv using a b by simp
qed

theorem scenario_forward_witness:
  "ServeHTTP scenario_world greeter (Inr ''{\"uid\":\"abc123\",\"greeting\":\"Hello {{name}}\"}'') =
     (Response \<lparr>status_code = 202,
        message = ''Request sent to destination with status: 202 Accepted''\<rparr>,
      [Get ''http://lookup.test/fields?uid=abc123'',
       Do \<lparr>Method = ''POST'', URL = ''http://destination.test/in'',
          Header = [(''Content-Type'', ''application/json'')],
          Payload = ''{\"uid\":\"abc123\",\"greeting\":\"Hello Ada\"}''\<rparr>])
   \<and> fst (ServeHTTP
       (destination_world \<lparr>StatusCode = 304, Status = ''304 Not Modified'', Body = []\<rparr>)
       greeter (Inr ''{\"uid\":\"abc123\",\"greeting\":\"Hello {{name}}\"}'')) =
     Response \<lparr>status_code = 304, message = []\<rparr>"
proof -
  let ?body = "''{\"uid\":\"abc123\",\"greeting\":\"Hello {{name}}\"}''"
  let ?r = "\<lparr>StatusCode = 200, Status = ''200 OK'', Body = ''{\"name\":\"Ada\"}''\<rparr>"
  let ?a = "\<lparr>StatusCode = 202, Status = ''202 Accepted'', Body = []\<rparr>"
  let ?n = "\<lparr>StatusCode = 304, Status = ''304 Not Modified'', Body = []\<rparr>"
  let ?sent = "''{\"uid\":\"abc123\",\"greeting\":\"Hello Ada\"}''"
  let ?post = "\<lparr>Method = ''POST'', URL = destinationURL greeter,
      Header = [(''Content-Type'', ''application/json'')], Payload = ?sent\<rparr>"
  let ?w = "destination_world ?n"
  have k: "replaceableKeys greeter = [''name'']"
    by (simp add: greeter_def)
  have j1: "json_text scenario_world ?body =
      Some (JObject [(''uid'', JString ''abc123''), (''greeting'', JString ''Hello {{name}}'')])"
    by (simp add: scenario_world_def test_world_def json_table_def table_world_def)
  have j2: "json_text ?w ?body =
      Some (JObject [(''uid'', JString ''abc123''), (''greeting'', JString ''Hello {{name}}'')])"
    by (simp add: destination_world_def json_table_def table_world_def)
  have g1: "http_Get scenario_world (apiURL greeter @ ''?uid=abc123'') = Inr ?r"
    by (simp add: scenario_world_def test_world_def table_world_def greeter_def)
  have g2: "http_Get ?w (apiURL greeter @ ''?uid=abc123'') = Inr ?r"
    by (simp add: destination_world_def table_world_def greeter_def)
  have c: "StatusCode ?r = 200"
    by simp
  have s1: "json_stream scenario_world (Body ?r) = Some (JObject [(''name'', JString ''Ada'')])"
    by (simp add: scenario_world_def test_world_def json_table_def table_world_def)
  have s2: "json_stream ?w (Body ?r) = Some (JObject [(''name'', JString ''Ada'')])"
    by (simp add: destination_world_def json_table_def table_world_def)
  have n1: "NewRequest_ok scenario_world (destinationURL greeter)"
    by (simp add: scenario_world_def test_world_def table_world_def)
  have n2: "NewRequest_ok ?w (destinationURL greeter)"
    by (simp add: destination_world_def table_world_def)
  have d1: "client_Do scenario_world ?post = Inr ?a"
    by (simp add: scenario_world_def test_world_def table_world_def)
  have d2: "client_Do ?w ?post = Inr ?n"
    by (simp add: destination_world_def table_world_def)
  note t1 = scenario_forward [OF k j1 g1 c s1 n1 d1]
  note t2 = scenario_forward [OF k j2 g2 c s2 n2 d2]
  have h1: "200 \<le> StatusCode ?a \<and> StatusCode ?a \<le> 999 \<and>
      StatusCode ?a \<noteq> 204 \<and> StatusCode ?a \<noteq> 304"
    by simp
  have h2: "StatusCode ?n = 204 \<or> StatusCode ?n = 304"
    by simp
  from t1 h1 have "fst (ServeHTTP scenario_world greeter (Inr ?body)) =
          Response \<lparr>status_code = StatusCode ?a,
            message = ''Request sent to destination with status: '' @ Status ?a\<rparr>"
    by blast
  then have "fst (ServeHTTP scenario_world greeter (Inr ?body)) =
          Response \<lparr>status_code = 202,
            message = ''Request sent to destination with status: 202 Accepted''\<rparr>"
    by simp
  moreover from t1 have "snd (ServeHTTP scenario_world greeter (Inr ?body)) =
          [Get (apiURL greeter @ ''?uid=abc123''), Do ?post]"
    by blast
  then have "snd (ServeHTTP scenario_world greeter (Inr ?body)) =
          [Get ''http://lookup.test/fields?uid=abc123'',
           Do \<lparr>Method = ''POST'', URL = ''http://destination.test/in'',
              Header = [(''Content-Type'', ''application/json'')], Payload = ?sent\<rparr>]"
    by (simp add: greeter_def)
  ultimately have first: "ServeHTTP scenario_world greeter (Inr ?body) =
     (Response \<lparr>status_code = 202,
        message = ''Request sent to destination with status: 202 Accepted''\<rparr>,
      [Get ''http://lookup.test/fields?uid=abc123'',
       Do \<lparr>Method = ''POST'', URL = ''http://destination.test/in'',
          Header = [(''Content-Type'', ''application/json'')],
          Payload = ''{\"uid\":\"abc123\",\"greeting\":\"Hello Ada\"}''\<rparr>])"
    by (simp add: prod_eq_iff)
  from t2 h2 have "fst (ServeHTTP ?w greeter (Inr ?body)) =
     Response \<lparr>status_code = StatusCode ?n, message = []\<rparr>"
    by blast
  then have second: "fst (ServeHTTP ?w greeter (Inr ?body)) =
     Response \<lparr>status_code = 304, message = []\<rparr>"
    by simp
  from first second show ?thesis by (rule conjI)
qed

text \<open>
  Claim C3, as it is stated, fails: with the keys \<open>a\<close> and \<open>b\<close>, where \<open>b\<close> resolves to
  the token of \<open>a\<close>, the body \<open>{{b}}\<close> becomes \<open>{{a}}\<close> in the first run (the key
  \<open>a\<close> is taken before \<open>b\<close>) and \<open>x\<close> in the second.
\<close>

theorem resubstitution_counterexample:
  "replace_placeholders [''a'' \<mapsto> ''x'', ''b'' \<mapsto> ''{{a}}''] [''a'', ''b'']
     (replace_placeholders [''a'' \<mapsto> ''x'', ''b'' \<mapsto> ''{{a}}''] [''a'', ''b''] ''{{b}}'')
   \<noteq> replace_placeholders [''a'' \<mapsto> ''x'', ''b'' \<mapsto> ''{{a}}''] [''a'', ''b''] ''{{b}}''"
  by (simp add: ReplaceAll_def token_def)

text \<open>
  Claim C3, amended. A second run of the substitution, with the same keys and fields,
  changes nothing when the token of no resolved key occurs in the result of the first.
\<close>

theorem resubstitution_unchanged:
  assumes "\<forall>k \<in> set keys. fetchedData k \<noteq> None \<longrightarrow>
             \<not> sublist (token k) (replace_placeholders fetchedData keys body)"
  shows "replace_placeholders fetchedData keys (replace_placeholders fetchedData keys body) =
           replace_placeholders fetchedData keys body"
  using assms by (rule replace_placeholders_no_token)

theorem resubstitution_unchanged_witness:
  "replace_placeholders [''name'' \<mapsto> ''Ada''] [''name'', ''city'']
     (replace_placeholders [''name'' \<mapsto> ''Ada''] [''name'', ''city''] ''Hello {{name}} of {{city}}'')
   = ''Hello Ada of {{city}}''"
proof -
  have r: "replace_placeholders [''name'' \<mapsto> ''Ada''] [''name'', ''city''] ''Hello {{name}} of {{city}}'' =
             ''Hello Ada of {{city}}''"
    by (simp add: ReplaceAll_def token_def)
  have h: "\<forall>k \<in> set [''name'', ''city'']. [''name'' \<mapsto> ''Ada''] k \<noteq> None \<longrightarrow>
             \<not> sublist (token k)
                 (replace_placeholders [''name'' \<mapsto> ''Ada''] [''name'', ''city''] ''Hello {{name}} of {{city}}'')"
    unfolding r by (simp add: token_def sublist_code)
  from resubstitution_unchanged [OF h] show ?thesis
    by (simp only: r)
qed

text \<open>
  Claim C4. A body that is not JSON is answered with status 400 and the message
  \<open>invalid JSON\<close>, and no call is made: neither the lookup nor the forwarding.
\<close>

theorem malformed_input:
  assumes "json_text w body = None"
  shows "ServeHTTP w d (Inr body) =
           (Response \<lparr>status_code = 400, message = ''invalid JSON'' @ [CHR 0x0A]\<rparr>, [])"
  using assms
  by (simp add: ServeHTTP_def Unmarshal_interface_map_def http_Error_def write_response_def bodyAllowedForStatus_def StatusBadRequest_def)

theorem malformed_input_witness:
  "ServeHTTP scenario_world greeter (Inr ''uid=abc123&greeting={{name}}'') =
     (Response \<lparr>status_code = 400, message = ''invalid JSON'' @ [CHR 0x0A]\<rparr>, [])"
proof -
  have h: "json_text scenario_world ''uid=abc123&greeting={{name}}'' = None"
    by (simp add: scenario_world_def test_world_def json_table_def table_world_def)
  from malformed_input [OF h] show ?thesis .
qed

text \<open>
  Claim C5, as it is stated, fails: the body \<open>[]\<close> is JSON and holds no \<open>uid\<close>, and it
  is answered as malformed input, since an array cannot be stored in the request's map.
\<close>

theorem missing_identifier_counterexample:
  "json_text (test_world Map.empty) ''[]'' = Some (JArray [])
   \<and> spec_uid_missing (JArray [])
   \<and> ServeHTTP (test_world Map.empty) greeter (Inr ''[]'') =
       (Response \<lparr>status_code = 400, message = ''invalid JSON'' @ [CHR 0x0A]\<rparr>, [])
   \<and> ServeHTTP (test_world Map.empty) greeter (Inr ''[]'') \<noteq>
       (Response \<lparr>status_code = 400, message = ''uid not found in request'' @ [CHR 0x0A]\<rparr>, [])"
  by (simp add: test_world_def json_table_def table_world_def spec_uid_missing_def ServeHTTP_def
      Unmarshal_interface_map_def http_Error_def write_response_def bodyAllowedForStatus_def StatusBadRequest_def)

text \<open>
  Claim C5, amended. A body that is stored in the request's map (a JSON object whose
  numbers convert, or \<open>null\<close>) and in which \<open>uid\<close> is absent, is not a string or is the
  empty string is answered with status 400 and the message \<open>uid not found in request\<close>,
  and no call is made. A JSON body that is not stored in the map (an array, a string, a
  number, a boolean, or an object with a number that does not convert) is answered as
  malformed input, with status 400 and the message \<open>invalid JSON\<close>, and no call is made.
\<close>

theorem missing_identifier:
  assumes "json_text w body = Some v"
  shows "(fills_map w v \<and> spec_uid_missing v \<longrightarrow>
            ServeHTTP w d (Inr body) =
              (Response \<lparr>status_code = 400, message = ''uid not found in request'' @ [CHR 0x0A]\<rparr>,
               []))
         \<and> (\<not> fills_map w v \<longrightarrow>
            ServeHTTP w d (Inr body) =
              (Response \<lparr>status_code = 400, message = ''invalid JSON'' @ [CHR 0x0A]\<rparr>, []))
         \<and> (\<not> fills_map w v \<longleftrightarrow>
            (\<exists>b. v = JBool b) \<or> (\<exists>n. v = JNumber n) \<or> (\<exists>s. v = JString s) \<or>
            (\<exists>vs. v = JArray vs) \<or>
            (\<exists>kvs. v = JObject kvs \<and> \<not> numbers_convert (float64_range w) v))"
proof -
  have a: "ServeHTTP w d (Inr body) =
             (Response \<lparr>status_code = 400, message = ''uid not found in request'' @ [CHR 0x0A]\<rparr>,
              [])"
    if f: "fills_map w v" and m: "spec_uid_missing v"
  proof -
    have u: "Unmarshal_interface_map w body = Inr (member_at v)"
      using assms f by (simp add: Unmarshal_interface_map_cases)
    have "snd (assert_string (member_at v ''uid'')) = False
          \<or> fst (assert_string (member_at v ''uid'')) = []"
      using m
      by (cases "member_at v ''uid''" rule: assert_string.cases)
         (auto simp: spec_uid_missing_def)
    then show ?thesis
      by (auto simp: ServeHTTP_def u http_Error_def write_response_def bodyAllowedForStatus_def
          StatusBadRequest_def split: prod.splits)
  qed
  have b: "ServeHTTP w d (Inr body) =
             (Response \<lparr>status_code = 400, message = ''invalid JSON'' @ [CHR 0x0A]\<rparr>, [])"
    if "\<not> fills_map w v"
    using assms that
    by (simp add: ServeHTTP_def Unmarshal_interface_map_cases http_Error_def write_response_def
        bodyAllowedForStatus_def StatusBadRequest_def)
  have c: "\<not> fills_map w v \<longleftrightarrow>
            (\<exists>b. v = JBool b) \<or> (\<exists>n. v = JNumber n) \<or> (\<exists>s. v = JString s) \<or>
            (\<exists>vs. v = JArray vs) \<or>
            (\<exists>kvs. v = JObject kvs \<and> \<not> numbers_convert (float64_range w) v)"
    by (cases v) (simp_all add: fills_map_def)
  from a b c show ?thesis by blast
qed

theorem missing_identifier_witness:
  "ServeHTTP scenario_world greeter (Inr ''{\"name\":\"Ada\"}'') =
     (Response \<lparr>status_code = 400, message = ''uid not found in request'' @ [CHR 0x0A]\<rparr>, [])
   \<and> ServeHTTP scenario_world greeter (Inr ''{\"uid\":\"\"}'') =
     (Response \<lparr>status_code = 400, message = ''uid not found in request'' @ [CHR 0x0A]\<rparr>, [])
   \<and> ServeHTTP scenario_world greeter (Inr ''{\"uid\":7}'') =
     (Response \<lparr>status_code = 400, message = ''uid not found in request'' @ [CHR 0x0A]\<rparr>, [])
   \<and> ServeHTTP scenario_world greeter (Inr ''[]'') =
     (Response \<lparr>status_code = 400, message = ''invalid JSON'' @ [CHR 0x0A]\<rparr>, [])"
proof -
  have a: "json_text scenario_world ''{\"name\":\"Ada\"}'' = Some (JObject [(''name'', JString ''Ada'')])"
    by (simp add: scenario_world_def test_world_def json_table_def table_world_def)
  have b: "json_text scenario_world ''{\"uid\":\"\"}'' = Some (JObject [(''uid'', JString [])])"
    by (simp add: scenario_world_def test_world_def json_table_def table_world_def)
  have c: "json_text scenario_world ''{\"uid\":7}'' = Some (JObject [(''uid'', JNumber ''7'')])"
    by (simp add: scenario_world_def test_world_def json_table_def table_world_def)
  have e: "json_text scenario_world ''[]'' = Some (JArray [])"
    by (simp add: scenario_world_def test_world_def json_table_def table_world_def)
  have fa: "fills_map scenario_world (JObject [(''name'', JString ''Ada'')])"
    and fb: "fills_map scenario_world (JObject [(''uid'', JString [])])"
    and fc: "fills_map scenario_world (JObject [(''uid'', JNumber ''7'')])"
    and fe: "\<not> fills_map scenario_world (JArray [])"
    by (simp_all add: fills_map_def scenario_world_def test_world_def table_world_def)
  have ma: "spec_uid_missing (JObject [(''name'', JString ''Ada'')])"
    and mb: "spec_uid_missing (JObject [(''uid'', JString [])])"
    and mc: "spec_uid_missing (JObject [(''uid'', JNumber ''7'')])"
    by (simp_all add: spec_uid_missing_def)
  from missing_identifier [OF a, of greeter] fa ma
  have ra: "ServeHTTP scenario_world greeter (Inr ''{\"name\":\"Ada\"}'') =
     (Response \<lparr>status_code = 400, message = ''uid not found in request'' @ [CHR 0x0A]\<rparr>, [])"
    by blast
  from missing_identifier [OF b, of greeter] fb mb
  have rb: "ServeHTTP scenario_world greeter (Inr ''{\"uid\":\"\"}'') =
     (Response \<lparr>status_code = 400, message = ''uid not found in request'' @ [CHR 0x0A]\<rparr>, [])"
    by blast
  from missing_identifier [OF c, of greeter] fc mc
  have rc: "ServeHTTP scenario_world greeter (Inr ''{\"uid\":7}'') =
     (Response \<lparr>status_code = 400, message = ''uid not found in request'' @ [CHR 0x0A]\<rparr>, [])"
    by blast
  from missing_identifier [OF e, of greeter] fe
  have re: "ServeHTTP scenario_world greeter (Inr ''[]'') =
     (Response \<lparr>status_code = 400, message = ''invalid JSON'' @ [CHR 0x0A]\<rparr>, [])"
    by blast
  show ?thesis
    by (intro conjI) (fact ra, fact rb, fact rc, fact re)
qed

text \<open>
  Claim C6. When the lookup fails (the call has an error, the status is not 200, or
  the body is not decoded) a request with an identifier is answered with status 500
  and the message \<open>could not fetch data from API\<close>; the lookup is the only call made,
  so nothing is forwarded.
\<close>

theorem lookup_failure:
  assumes "Unmarshal_interface_map w body = Inr requestData"
    and "requestData ''uid'' = Some (JString uid)" and "uid \<noteq> []"
    and "(\<exists>err. http_Get w (apiURL d @ ''?uid='' @ uid) = Inl err)
         \<or> (\<exists>resp. http_Get w (apiURL d @ ''?uid='' @ uid) = Inr resp
               \<and> (StatusCode resp \<noteq> 200 \<or> (\<exists>err. Decode_string_map w (Body resp) = Inl err)))"
  shows "ServeHTTP w d (Inr body) =
           (Response \<lparr>status_code = 500, message = ''could not fetch data from API'' @ [CHR 0x0A]\<rparr>,
            [Get (apiURL d @ ''?uid='' @ uid)])"
proof -
  from assms(4) have "\<exists>err. snd (fetchDataFromAPI w d uid) = Inl err"
    by (auto simp: fetchDataFromAPI_snd)
  then obtain err where "snd (fetchDataFromAPI w d uid) = Inl err" ..
  then have "fetchDataFromAPI w d uid = ([Get (apiURL d @ ''?uid='' @ uid)], Inl err)"
    by (simp add: fetchDataFromAPI_def Let_def)
  with assms(1,2,3) show ?thesis
    by (simp add: ServeHTTP_def http_Error_def write_response_def bodyAllowedForStatus_def StatusInternalServerError_def)
qed

theorem lookup_failure_witness:
  "ServeHTTP (test_world Map.empty) greeter
     (Inr ''{\"uid\":\"abc123\",\"greeting\":\"Hello {{name}}\"}'') =
     (Response \<lparr>status_code = 500, message = ''could not fetch data from API'' @ [CHR 0x0A]\<rparr>,
      [Get ''http://lookup.test/fields?uid=abc123''])
   \<and> ServeHTTP
       (test_world [''http://lookup.test/fields?uid=abc123'' \<mapsto>
          \<lparr>StatusCode = 503, Status = ''503 Service Unavailable'', Body = []\<rparr>])
       greeter (Inr ''{\"uid\":\"abc123\",\"greeting\":\"Hello {{name}}\"}'') =
     (Response \<lparr>status_code = 500, message = ''could not fetch data from API'' @ [CHR 0x0A]\<rparr>,
      [Get ''http://lookup.test/fields?uid=abc123''])
   \<and> ServeHTTP
       (test_world [''http://lookup.test/fields?uid=abc123'' \<mapsto>
          \<lparr>StatusCode = 200, Status = ''200 OK'', Body = ''{\"name\":7}''\<rparr>])
       greeter (Inr ''{\"uid\":\"abc123\",\"greeting\":\"Hello {{name}}\"}'') =
     (Response \<lparr>status_code = 500, message = ''could not fetch data from API'' @ [CHR 0x0A]\<rparr>,
      [Get ''http://lookup.test/fields?uid=abc123''])"
proof -
  let ?body = "''{\"uid\":\"abc123\",\"greeting\":\"Hello {{name}}\"}''"
  let ?m = "[''uid'' \<mapsto> JString ''abc123'', ''greeting'' \<mapsto> JString ''Hello {{name}}'']"
  let ?w2 = "test_world [''http://lookup.test/fields?uid=abc123'' \<mapsto>
          \<lparr>StatusCode = 503, Status = ''503 Service Unavailable'', Body = []\<rparr>]"
  let ?w3 = "test_world [''http://lookup.test/fields?uid=abc123'' \<mapsto>
          \<lparr>StatusCode = 200, Status = ''200 OK'', Body = ''{\"name\":7}''\<rparr>]"
  have u: "Unmarshal_interface_map (test_world g) ?body = Inr ?m" for g
    by (simp add: Unmarshal_interface_map_def test_world_def json_table_def table_world_def)
  have i: "?m ''uid'' = Some (JString ''abc123'')" and n: "''abc123'' \<noteq> []"
    by simp_all
  have h1: "(\<exists>err. http_Get (test_world Map.empty) (apiURL greeter @ ''?uid='' @ ''abc123'') = Inl err)
         \<or> (\<exists>resp. http_Get (test_world Map.empty) (apiURL greeter @ ''?uid='' @ ''abc123'') = Inr resp
               \<and> (StatusCode resp \<noteq> 200
                    \<or> (\<exists>err. Decode_string_map (test_world Map.empty) (Body resp) = Inl err)))"
    by (simp add: test_world_def table_world_def greeter_def)
  have h2: "(\<exists>err. http_Get ?w2 (apiURL greeter @ ''?uid='' @ ''abc123'') = Inl err)
         \<or> (\<exists>resp. http_Get ?w2 (apiURL greeter @ ''?uid='' @ ''abc123'') = Inr resp
               \<and> (StatusCode resp \<noteq> 200 \<or> (\<exists>err. Decode_string_map ?w2 (Body resp) = Inl err)))"
    by (simp add: test_world_def table_world_def greeter_def)
  have h3: "(\<exists>err. http_Get ?w3 (apiURL greeter @ ''?uid='' @ ''abc123'') = Inl err)
         \<or> (\<exists>resp. http_Get ?w3 (apiURL greeter @ ''?uid='' @ ''abc123'') = Inr resp
               \<and> (StatusCode resp \<noteq> 200 \<or> (\<exists>err. Decode_string_map ?w3 (Body resp) = Inl err)))"
    by (simp add: test_world_def table_world_def greeter_def json_table_def Decode_string_map_def)
  have g: "apiURL greeter @ ''?uid='' @ ''abc123'' = ''http://lookup.test/fields?uid=abc123''"
    by (simp add: greeter_def)
  from lookup_failure [OF u i n h1] lookup_failure [OF u i n h2] lookup_failure [OF u i n h3]
  show ?thesis unfolding g by (intro conjI)
qed

text \<open>
  Claim C7, as it is stated, fails: a lookup answered with status 201 and a body that
  decodes is a failure.
\<close>

theorem lookup_status_counterexample:
  "http_Get
     (test_world [''http://lookup.test/fields?uid=abc123'' \<mapsto>
        \<lparr>StatusCode = 201, Status = ''201 Created'', Body = ''{\"name\":\"Ada\"}''\<rparr>])
     ''http://lookup.test/fields?uid=abc123'' =
     Inr \<lparr>StatusCode = 201, Status = ''201 Created'', Body = ''{\"name\":\"Ada\"}''\<rparr>
   \<and> Decode_string_map
       (test_world [''http://lookup.test/fields?uid=abc123'' \<mapsto>
          \<lparr>StatusCode = 201, Status = ''201 Created'', Body = ''{\"name\":\"Ada\"}''\<rparr>])
       ''{\"name\":\"Ada\"}'' = Inr [''name'' \<mapsto> ''Ada'']
   \<and> snd (fetchDataFromAPI
       (test_world [''http://lookup.test/fields?uid=abc123'' \<mapsto>
          \<lparr>StatusCode = 201, Status = ''201 Created'', Body = ''{\"name\":\"Ada\"}''\<rparr>])
       greeter ''abc123'') =
     Inl (StatusError ''API request failed with status: 201 Created'')"
  by (simp add: fetchDataFromAPI_snd Decode_string_map_def test_world_def table_world_def
      json_table_def greeter_def)

text \<open>
  Claim C7, amended. The lookup takes exactly the status 200 as success: with status
  200 its result is the result of the decoding, and with any other status, 2xx or not,
  it fails with the status line in its error.
\<close>

theorem lookup_status:
  assumes "http_Get w (apiURL d @ ''?uid='' @ uid) = Inr resp"
  shows "(StatusCode resp = 200 \<longrightarrow>
            snd (fetchDataFromAPI w d uid) = Decode_string_map w (Body resp))
         \<and> (StatusCode resp \<noteq> 200 \<longrightarrow>
            snd (fetchDataFromAPI w d uid) =
              Inl (StatusError (''API request failed with status: '' @ Status resp)))"
  using assms by (simp add: fetchDataFromAPI_snd)

theorem lookup_status_witness:
  "snd (fetchDataFromAPI scenario_world greeter ''abc123'') = Inr [''name'' \<mapsto> ''Ada'']
   \<and> snd (fetchDataFromAPI
       (test_world [''http://lookup.test/fields?uid=abc123'' \<mapsto>
          \<lparr>StatusCode = 204, Status = ''204 No Content'', Body = []\<rparr>])
       greeter ''abc123'') =
     Inl (StatusError ''API request failed with status: 204 No Content'')"
proof -
  let ?w = "test_world [''http://lookup.test/fields?uid=abc123'' \<mapsto>
          \<lparr>StatusCode = 204, Status = ''204 No Content'', Body = []\<rparr>]"
  have a: "http_Get scenario_world (apiURL greeter @ ''?uid='' @ ''abc123'') =
             Inr \<lparr>StatusCode = 200, Status = ''200 OK'', Body = ''{\"name\":\"Ada\"}''\<rparr>"
    by (simp add: scenario_world_def test_world_def table_world_def greeter_def)
  have b: "http_Get ?w (apiURL greeter @ ''?uid='' @ ''abc123'') =
             Inr \<lparr>StatusCode = 204, Status = ''204 No Content'', Body = []\<rparr>"
    by (simp add: test_world_def table_world_def greeter_def)
  have c: "Decode_string_map scenario_world ''{\"name\":\"Ada\"}'' = Inr [''name'' \<mapsto> ''Ada'']"
    by (simp add: Decode_string_map_def scenario_world_def test_world_def table_world_def
        json_table_def)
  from lookup_status [OF a] lookup_status [OF b] c show ?thesis
    by simp
qed

text \<open>
  Claim C8, as it is stated, fails: the object \<open>{"name":null}\<close> has a value that is no
  string, and it is decoded, with \<open>name\<close> resolved to the empty string.
\<close>

theorem lookup_decoding_counterexample:
  "json_stream
     (test_world [''http://lookup.test/fields?uid=abc123'' \<mapsto>
        \<lparr>StatusCode = 200, Status = ''200 OK'', Body = ''{\"name\":null}''\<rparr>])
     ''{\"name\":null}'' = Some (JObject [(''name'', JNull)])
   \<and> \<not> spec_flat_string_object (JObject [(''name'', JNull)])
   \<and> Decode_string_map
       (test_world [''http://lookup.test/fields?uid=abc123'' \<mapsto>
          \<lparr>StatusCode = 200, Status = ''200 OK'', Body = ''{\"name\":null}''\<rparr>])
       ''{\"name\":null}'' = Inr [''name'' \<mapsto> []]
   \<and> snd (fetchDataFromAPI
       (test_world [''http://lookup.test/fields?uid=abc123'' \<mapsto>
          \<lparr>StatusCode = 200, Status = ''200 OK'', Body = ''{\"name\":null}''\<rparr>])
       greeter ''abc123'') = Inr [''name'' \<mapsto> []]"
  by (simp add: fetchDataFromAPI_snd Decode_string_map_def test_world_def table_world_def
      json_table_def greeter_def spec_flat_string_object_def)

text \<open>
  Claim C8, amended. On a lookup answered with status 200 the decoding, and with it
  the lookup, succeeds exactly when the body starts with \<open>null\<close> or with an object
  whose values are strings or \<open>null\<close>: \<open>null\<close> gives the empty mapping, and the object
  gives its members with the empty string for a \<open>null\<close> value. Every other shape
  (a nested object, an array, a number, a boolean, no JSON) fails.
\<close>

theorem lookup_decoding:
  assumes "http_Get w (apiURL d @ ''?uid='' @ uid) = Inr resp" and "StatusCode resp = 200"
  shows "((\<exists>m. Decode_string_map w (Body resp) = Inr m) \<longleftrightarrow>
            (\<exists>v. json_stream w (Body resp) = Some v \<and> decodable v))
         \<and> ((\<exists>m. snd (fetchDataFromAPI w d uid) = Inr m) \<longleftrightarrow>
            (\<exists>v. json_stream w (Body resp) = Some v \<and> decodable v))
         \<and> (json_stream w (Body resp) = Some JNull \<longrightarrow>
            snd (fetchDataFromAPI w d uid) = Inr Map.empty)
         \<and> (\<forall>kvs. json_stream w (Body resp) = Some (JObject kvs) \<and> decodable (JObject kvs) \<longrightarrow>
            snd (fetchDataFromAPI w d uid) =
              Inr (store_members
                     (map (\<lambda>kv. (fst kv, case snd kv of JString s \<Rightarrow> s | _ \<Rightarrow> [])) kvs)
                     Map.empty))"
proof -
  have f: "snd (fetchDataFromAPI w d uid) = Decode_string_map w (Body resp)"
    using assms by (simp add: fetchDataFromAPI_snd)
  have a: "(\<exists>m. Decode_string_map w (Body resp) = Inr m) \<longleftrightarrow>
            (\<exists>v. json_stream w (Body resp) = Some v \<and> decodable v)"
    by (rule Decode_string_map_Inr)
  have c: "json_stream w (Body resp) = Some JNull \<longrightarrow>
            snd (fetchDataFromAPI w d uid) = Inr Map.empty"
    by (simp add: f Decode_string_map_def)
  have e: "\<forall>kvs. json_stream w (Body resp) = Some (JObject kvs) \<and> decodable (JObject kvs) \<longrightarrow>
            snd (fetchDataFromAPI w d uid) =
              Inr (store_members
                     (map (\<lambda>kv. (fst kv, case snd kv of JString s \<Rightarrow> s | _ \<Rightarrow> [])) kvs)
                     Map.empty)"
    by (simp add: f Decode_string_map_def decodable_def string_elements_values)
  show ?thesis
    unfolding f using a c e unfolding f by blast
qed

theorem lookup_decoding_witness:
  "snd (fetchDataFromAPI scenario_world greeter ''abc123'') = Inr [''name'' \<mapsto> ''Ada'']
   \<and> snd (fetchDataFromAPI
       (test_world [''http://lookup.test/fields?uid=abc123'' \<mapsto>
          \<lparr>StatusCode = 200, Status = ''200 OK'', Body = ''{\"name\":7}''\<rparr>])
       greeter ''abc123'') = Inl UnmarshalTypeError"
proof -
  let ?r = "\<lparr>StatusCode = 200, Status = ''200 OK'', Body = ''{\"name\":\"Ada\"}''\<rparr>"
  let ?r7 = "\<lparr>StatusCode = 200, Status = ''200 OK'', Body = ''{\"name\":7}''\<rparr>"
  let ?w7 = "test_world [''http://lookup.test/fields?uid=abc123'' \<mapsto> ?r7]"
  have a: "http_Get scenario_world (apiURL greeter @ ''?uid='' @ ''abc123'') = Inr ?r"
    by (simp add: scenario_world_def test_world_def table_world_def greeter_def)
  have b: "StatusCode ?r = 200"
    by simp
  have j: "json_stream scenario_world (Body ?r) = Some (JObject [(''name'', JString ''Ada'')])"
    by (simp add: scenario_world_def test_world_def table_world_def json_table_def)
  have k: "decodable (JObject [(''name'', JString ''Ada'')])"
    by (simp add: decodable_def)
  from lookup_decoding [OF a b] j k
  have "snd (fetchDataFromAPI scenario_world greeter ''abc123'') =
          Inr (store_members
                 (map (\<lambda>kv. (fst kv, case snd kv of JString s \<Rightarrow> s | _ \<Rightarrow> []))
                    [(''name'', JString ''Ada'')])
                 Map.empty)"
    by blast
  then have first: "snd (fetchDataFromAPI scenario_world greeter ''abc123'') = Inr [''name'' \<mapsto> ''Ada'']"
    by simp
  have a7: "http_Get ?w7 (apiURL greeter @ ''?uid='' @ ''abc123'') = Inr ?r7"
    by (simp add: test_world_def table_world_def greeter_def)
  have b7: "StatusCode ?r7 = 200"
    by simp
  have j7: "json_stream ?w7 (Body ?r7) = Some (JObject [(''name'', JNumber ''7'')])"
    by (simp add: test_world_def table_world_def json_table_def)
  have k7: "\<not> decodable (JObject [(''name'', JNumber ''7'')])"
    by (simp add: decodable_def)
  from lookup_decoding [OF a7 b7] j7 k7
  have "\<not> (\<exists>m. snd (fetchDataFromAPI ?w7 greeter ''abc123'') = Inr m)"
    by simp
  moreover have "snd (fetchDataFromAPI ?w7 greeter ''abc123'') = Inl UnmarshalTypeError
                 \<or> (\<exists>m. snd (fetchDataFromAPI ?w7 greeter ''abc123'') = Inr m)"
    by (simp add: fetchDataFromAPI_snd Decode_string_map_def test_world_def table_world_def
        json_table_def greeter_def)
  ultimately have "snd (fetchDataFromAPI ?w7 greeter ''abc123'') = Inl UnmarshalTypeError"
    by blast
  with first show ?thesis by (rule conjI)
qed

text \<open>
  Claim C9, as it is stated, fails: a key list that holds an empty string is accepted.
\<close>

theorem New_rejects_counterexample:
  "spec_invalid \<lparr>APIURL = ''http://lookup.test/fields'', ReplaceableKeys = [''name'', []],
                  DestinationURL = ''http://destination.test/in''\<rparr>
   \<and> New ()
       (Some \<lparr>APIURL = ''http://lookup.test/fields'', ReplaceableKeys = [''name'', []],
               DestinationURL = ''http://destination.test/in''\<rparr>) ''greeter'' =
     Inr \<lparr>next_handler = (), name = ''greeter'', apiURL = ''http://lookup.test/fields'',
          replaceableKeys = [''name'', []], destinationURL = ''http://destination.test/in''\<rparr>"
  by (simp add: spec_invalid_def New_def)

text \<open>
  Claim C9, amended. Given a configuration, \<open>New\<close> fails exactly when the lookup URL
  is empty, the destination URL is empty or the key list is empty; otherwise it
  succeeds and the handler holds the three settings unchanged. The keys themselves are
  not looked at.
\<close>

theorem New_rejects:
  "((\<exists>err. New nxt (Some c) nm = Inl err) \<longleftrightarrow>
      APIURL c = [] \<or> DestinationURL c = [] \<or> ReplaceableKeys c = [])
   \<and> (APIURL c \<noteq> [] \<and> DestinationURL c \<noteq> [] \<and> ReplaceableKeys c \<noteq> [] \<longrightarrow>
      New nxt (Some c) nm =
        Inr \<lparr>next_handler = nxt, name = nm, apiURL = APIURL c,
             replaceableKeys = ReplaceableKeys c, destinationURL = DestinationURL c\<rparr>)"
  by (simp add: New_def)

theorem New_rejects_witness:
  "New () (Some \<lparr>APIURL = ''http://lookup.test/fields'', ReplaceableKeys = [''name''],
                  DestinationURL = ''http://destination.test/in''\<rparr>) ''greeter'' = Inr greeter
   \<and> New () (Some CreateConfig) ''greeter'' = Inl InvalidConfiguration"
proof -
  let ?c = "\<lparr>APIURL = ''http://lookup.test/fields'', ReplaceableKeys = [''name''],
              DestinationURL = ''http://destination.test/in''\<rparr>"
  have h: "APIURL ?c \<noteq> [] \<and> DestinationURL ?c \<noteq> [] \<and> ReplaceableKeys ?c \<noteq> []"
    by simp
  from New_rejects [of "()" ?c "''greeter''"] h
  have first: "New () (Some ?c) ''greeter'' = Inr greeter"
    by (simp add: greeter_def)
  have "APIURL CreateConfig = []"
    by (simp add: CreateConfig_def)
  with New_rejects [of "()" CreateConfig "''greeter''"]
  obtain err where e: "New () (Some CreateConfig) ''greeter'' = Inl err"
    by blast
  then have "err = InvalidConfiguration"
    by (simp add: New_def CreateConfig_def)
  with e first show ?thesis by simp
qed

text \<open>
  Claim C10. The URL of the lookup is the configured URL, the text \<open>?uid=\<close> and the
  identifier, joined as they are: nothing is escaped. It is the first call of every
  request that has an identifier.
\<close>

theorem lookup_url:
  "fst (fetchDataFromAPI w d uid) = [Get (apiURL d @ ''?uid='' @ uid)]
   \<and> (Unmarshal_interface_map w body = Inr requestData \<and>
       requestData ''uid'' = Some (JString uid) \<and> uid \<noteq> [] \<longrightarrow>
       take 1 (snd (ServeHTTP w d (Inr body))) = [Get (apiURL d @ ''?uid='' @ uid)])"
  by (auto simp: fetchDataFromAPI_fst ServeHTTP_def fetchDataFromAPI_def Let_def
      split: prod.splits sum.splits)

theorem lookup_url_witness:
  "fst (fetchDataFromAPI scenario_world greeter ''a&b #c'') =
     [Get ''http://lookup.test/fields?uid=a&b #c'']
   \<and> take 1 (snd (ServeHTTP scenario_world greeter (Inr ''{\"uid\":\"a&b #c\"}''))) =
     [Get ''http://lookup.test/fields?uid=a&b #c'']"
proof -
  have u: "Unmarshal_interface_map scenario_world ''{\"uid\":\"a&b #c\"}'' =
             Inr [''uid'' \<mapsto> JString ''a&b #c'']"
    by (simp add: Unmarshal_interface_map_def scenario_world_def test_world_def table_world_def
        json_table_def)
  have i: "[''uid'' \<mapsto> JString ''a&b #c''] ''uid'' = Some (JString ''a&b #c'')"
    and n: "''a&b #c'' \<noteq> []"
    by simp_all
  from lookup_url [of scenario_world greeter "''a&b #c''" "''{\"uid\":\"a&b #c\"}''"
      "[''uid'' \<mapsto> JString ''a&b #c'']"] u i n
  show ?thesis
    by (simp add: greeter_def)
qed

end
